theory Spec2Isabelle
  imports Main "HOL-Library.Word"
begin

section \<open>Data model of \<^verbatim>\<open>src/src/index.ts\<close>\<close>

text \<open>
  The canister keeps five \<^verbatim>\<open>StableBTreeMap\<close> tables and exposes update and query
  functions over them. Every function is embedded as a HOL function from its arguments
  and the five tables to its \<^verbatim>\<open>Result\<close> and the tables afterwards. The two
  collaborators of the code, \<^verbatim>\<open>uuidv4()\<close> and \<^verbatim>\<open>ic.time()\<close>, are arguments
  \<open>uuid\<close> and \<open>now\<close> of the functions that call them. Every body is wrapped in
  \<^verbatim>\<open>try\<close>/\<^verbatim>\<open>catch\<close>; on values of the declared types no statement of a body
  throws, so the \<^verbatim>\<open>catch\<close> branches have no counterpart here.
\<close>

type_synonym PatientID = string
type_synonym DoctorID = string
type_synonym UniqueNumber = string
type_synonym HealthRecordID = string
type_synonym PrescriptionID = string
type_synonym LabTestID = string
type_synonym nat64 = "64 word"

text \<open>
  \<^verbatim>\<open>age\<close> is declared \<^verbatim>\<open>number\<close>; the model takes its integral values, which covers
  the \<^verbatim>\<open>nat64\<close> ages of the Candid interface as well as negative numbers.
  The fields of the five record types share names in the source (\<^verbatim>\<open>id\<close>,
  \<^verbatim>\<open>createdAt\<close>, ...); here they are told apart by the record name, as in
  \<open>Patient.id\<close>.
\<close>

record Patient =
  id :: PatientID
  name :: string
  age :: int
  gender :: string
  bloodType :: string
  medicalHistory :: string
  createdAt :: nat64
  updatedAt :: "nat64 option"

record HealthRecord =
  id :: HealthRecordID
  patientID :: PatientID
  uniqueNumber :: UniqueNumber
  officerID :: DoctorID
  diagnosisNotes :: string
  labTestIDs :: "string list option"
  prescriptionIDs :: "PrescriptionID list"
  createdAt :: nat64

record Doctor =
  id :: DoctorID
  name :: string
  specialization :: string
  createdAt :: nat64

record Prescription =
  id :: PrescriptionID
  doctorID :: DoctorID
  patientID :: PatientID
  medication :: string
  dosage :: string
  createdAt :: nat64

record LabTest =
  id :: LabTestID
  patientID :: PatientID
  doctorID :: DoctorID
  testType :: string
  results :: string
  createdAt :: nat64

datatype Error = NotFound string | InvalidPayload string

text \<open>
  The five module-level tables. A \<^verbatim>\<open>StableBTreeMap\<close> is used through
  \<^verbatim>\<open>insert\<close> (which overwrites), \<^verbatim>\<open>get\<close> and \<^verbatim>\<open>remove\<close> only, so each
  table is a finite map from keys to records. All five are constructed with the same
  arguments \<^verbatim>\<open>(0, 44, 1024)\<close>; what the library makes of the shared memory id and of
  the size limits lies outside the source, and the model keeps five independent tables
  without size limits, as the specification describes them.
\<close>

record Stores =
  patientsStorage :: "string \<rightharpoonup> Patient"
  healthRecordsStorage :: "string \<rightharpoonup> HealthRecord"
  doctorsStorage :: "string \<rightharpoonup> Doctor"
  prescriptionsStorage :: "string \<rightharpoonup> Prescription"
  labTestsStorage :: "string \<rightharpoonup> LabTest"

definition emptyStores :: Stores where
  "emptyStores = \<lparr>patientsStorage = Map.empty, healthRecordsStorage = Map.empty,
     doctorsStorage = Map.empty, prescriptionsStorage = Map.empty,
     labTestsStorage = Map.empty\<rparr>"

subsection \<open>JavaScript truthiness\<close>

text \<open>
  The guards of the source are written with \<^verbatim>\<open>!x\<close> and \<^verbatim>\<open>x && y\<close>. A string is
  falsy exactly when it is empty and a number exactly when it is zero. An \<^verbatim>\<open>Opt\<close>
  value is an object, \<^verbatim>\<open>{Some: v}\<close> or \<^verbatim>\<open>{None: null}\<close> (the source builds it with
  \<^verbatim>\<open>Opt.Some(...)\<close> and \<^verbatim>\<open>Opt.None\<close> and reads it with \<^verbatim>\<open>.Some\<close> and
  \<^verbatim>\<open>match\<close>), and a \<^verbatim>\<open>Vec\<close> is an array: objects and arrays are always truthy.
\<close>

definition truthy_text :: "string \<Rightarrow> bool" where
  "truthy_text s = (s \<noteq> [])"

definition truthy_number :: "int \<Rightarrow> bool" where
  "truthy_number n = (n \<noteq> 0)"

fun truthy_Opt :: "'a option \<Rightarrow> bool" where
  "truthy_Opt (Some v) = True"
| "truthy_Opt None = True"

definition truthy_Vec :: "'a list \<Rightarrow> bool" where
  "truthy_Vec xs = True"

subsection \<open>The table operations used by the source\<close>

definition insert_store :: "'k \<Rightarrow> 'v \<Rightarrow> ('k \<rightharpoonup> 'v) \<Rightarrow> ('k \<rightharpoonup> 'v)" where
  "insert_store k v m = m(k \<mapsto> v)"

definition get_store :: "('k \<rightharpoonup> 'v) \<Rightarrow> 'k \<Rightarrow> 'v option" where
  "get_store m k = m k"

text \<open>\<^verbatim>\<open>remove\<close> deletes the key and returns the record that was there, if any.\<close>

definition remove_store :: "'k \<Rightarrow> ('k \<rightharpoonup> 'v) \<Rightarrow> 'v option \<times> ('k \<rightharpoonup> 'v)" where
  "remove_store k m = (m k, m(k := None))"

section \<open>Patients\<close>

text \<open>
  The first guard shared by \<^verbatim>\<open>addPatient\<close> and \<^verbatim>\<open>updatePatient\<close>:
  \<^verbatim>\<open>!payload.name || !payload.age || !payload.gender || !payload.bloodType || !payload.medicalHistory\<close>.
\<close>

definition patientFieldMissing :: "Patient \<Rightarrow> bool" where
  "patientFieldMissing payload =
     (\<not> truthy_text (Patient.name payload) \<or> \<not> truthy_number (Patient.age payload)
      \<or> \<not> truthy_text (Patient.gender payload) \<or> \<not> truthy_text (Patient.bloodType payload)
      \<or> \<not> truthy_text (Patient.medicalHistory payload))"

text \<open>
  \<^verbatim>\<open>addPatient\<close>: the payload has the type \<^verbatim>\<open>Patient\<close>; the stored record is
  \<^verbatim>\<open>{...payload, id: uuidv4(), createdAt: ic.time(), updatedAt: Opt.None}\<close>, so the
  three server-side fields replace whatever the payload carried.
\<close>

definition addPatient :: "string \<Rightarrow> nat64 \<Rightarrow> Patient \<Rightarrow> Stores \<Rightarrow> (Error + Patient) \<times> Stores" where
  "addPatient uuid now payload s =
     (if patientFieldMissing payload
      then (Inl (InvalidPayload ''Invalid patient payload''), s)
      else if Patient.age payload \<le> 0
      then (Inl (InvalidPayload ''Invalid age''), s)
      else if Patient.gender payload \<noteq> ''male'' \<and> Patient.gender payload \<noteq> ''female''
      then (Inl (InvalidPayload ''Invalid gender''), s)
      else if Patient.bloodType payload \<noteq> ''A'' \<and> Patient.bloodType payload \<noteq> ''B''
              \<and> Patient.bloodType payload \<noteq> ''AB'' \<and> Patient.bloodType payload \<noteq> ''O''
      then (Inl (InvalidPayload ''Invalid blood type''), s)
      else if length (Patient.medicalHistory payload) > 1000
      then (Inl (InvalidPayload ''Invalid medical history''), s)
      else
        let patient = payload\<lparr>Patient.id := uuid, Patient.createdAt := now,
                               Patient.updatedAt := None\<rparr>
        in (Inr patient,
            s\<lparr>patientsStorage := insert_store (Patient.id patient) patient (patientsStorage s)\<rparr>))"

text \<open>
  \<^verbatim>\<open>getPatient\<close> is a query: it returns a result and leaves the tables alone. In
  the guard \<^verbatim>\<open>!id || typeof id !== "string"\<close>, here and in the two functions
  after it, the second disjunct is false for every argument of the declared type.
\<close>

definition getPatient :: "PatientID \<Rightarrow> Stores \<Rightarrow> Error + Patient" where
  "getPatient pid s =
     (if \<not> truthy_text pid
      then Inl (NotFound ''Invalid patient ID'')
      else case get_store (patientsStorage s) pid of
             Some patient \<Rightarrow> Inr patient
           | None \<Rightarrow> Inl (NotFound (''The patient with ID '' @ pid @ '' not found'')))"

text \<open>
  \<^verbatim>\<open>updatePatient\<close> builds \<^verbatim>\<open>{...existingPatient, ...payload, updatedAt: Opt.Some(ic.time())}\<close>.
  The payload has the type \<^verbatim>\<open>Patient\<close>, so it carries all eight fields and each of
  them replaces the field of the existing record; \<^verbatim>\<open>updatedAt\<close> is set last. The
  result is stored under the \<^verbatim>\<open>id\<close> argument. Only the presence guard is applied to
  the payload.
\<close>

definition spreadPatient :: "Patient \<Rightarrow> Patient \<Rightarrow> Patient" where
  "spreadPatient existingPatient payload =
     existingPatient\<lparr>Patient.id := Patient.id payload, Patient.name := Patient.name payload,
       Patient.age := Patient.age payload, Patient.gender := Patient.gender payload,
       Patient.bloodType := Patient.bloodType payload,
       Patient.medicalHistory := Patient.medicalHistory payload,
       Patient.createdAt := Patient.createdAt payload,
       Patient.updatedAt := Patient.updatedAt payload\<rparr>"

definition updatePatient :: "PatientID \<Rightarrow> nat64 \<Rightarrow> Patient \<Rightarrow> Stores \<Rightarrow> (Error + Patient) \<times> Stores" where
  "updatePatient pid now payload s =
     (if \<not> truthy_text pid
      then (Inl (NotFound ''Invalid patient ID''), s)
      else if patientFieldMissing payload
      then (Inl (InvalidPayload ''Invalid patient payload''), s)
      else case get_store (patientsStorage s) pid of
             Some existingPatient \<Rightarrow>
               let updatedPatient = (spreadPatient existingPatient payload)\<lparr>Patient.updatedAt := Some now\<rparr>
               in (Inr updatedPatient,
                   s\<lparr>patientsStorage := insert_store pid updatedPatient (patientsStorage s)\<rparr>)
           | None \<Rightarrow>
               (Inl (NotFound (''Couldn't update a patient with ID '' @ pid @ ''. Patient not found'')), s))"

text \<open>
  \<^verbatim>\<open>deletePatient\<close> calls \<^verbatim>\<open>remove\<close> first and then looks at what it returned.
\<close>

definition deletePatient :: "PatientID \<Rightarrow> Stores \<Rightarrow> (Error + Patient) \<times> Stores" where
  "deletePatient pid s =
     (if \<not> truthy_text pid
      then (Inl (NotFound ''Invalid patient ID''), s)
      else
        let (deletedPatientOpt, m) = remove_store pid (patientsStorage s);
            s' = s\<lparr>patientsStorage := m\<rparr>
        in case deletedPatientOpt of
             Some deletedPatient \<Rightarrow> (Inr deletedPatient, s')
           | None \<Rightarrow>
               (Inl (NotFound (''Couldn't delete a patient with ID '' @ pid @ ''. Patient not found'')), s'))"

section \<open>Health records and doctors\<close>

text \<open>
  \<^verbatim>\<open>addHealthRecord\<close> tests the looked-up patient with \<^verbatim>\<open>!existingPatientOpt\<close>,
  the truthiness of the \<^verbatim>\<open>Opt\<close> object.
\<close>

definition addHealthRecord :: "string \<Rightarrow> nat64 \<Rightarrow> HealthRecord \<Rightarrow> Stores \<Rightarrow> (Error + HealthRecord) \<times> Stores" where
  "addHealthRecord uuid now payload s =
     (if \<not> truthy_text (HealthRecord.patientID payload) \<or> \<not> truthy_text (HealthRecord.officerID payload)
         \<or> \<not> truthy_text (HealthRecord.diagnosisNotes payload)
      then (Inl (InvalidPayload ''Invalid health record payload''), s)
      else
        let existingPatientOpt = get_store (patientsStorage s) (HealthRecord.patientID payload)
        in if \<not> truthy_Opt existingPatientOpt
           then (Inl (NotFound (''Patient with ID '' @ HealthRecord.patientID payload @ '' not found'')), s)
           else
             let healthRecord = payload\<lparr>HealthRecord.id := uuid, HealthRecord.createdAt := now,
                                        HealthRecord.labTestIDs := None,
                                        HealthRecord.prescriptionIDs := []\<rparr>
             in (Inr healthRecord,
                 s\<lparr>healthRecordsStorage :=
                      insert_store (HealthRecord.id healthRecord) healthRecord (healthRecordsStorage s)\<rparr>))"

definition addDoctor :: "string \<Rightarrow> nat64 \<Rightarrow> Doctor \<Rightarrow> Stores \<Rightarrow> (Error + Doctor) \<times> Stores" where
  "addDoctor uuid now payload s =
     (if \<not> truthy_text (Doctor.name payload) \<or> \<not> truthy_text (Doctor.specialization payload)
      then (Inl (InvalidPayload ''Invalid doctor payload''), s)
      else
        let doctor = payload\<lparr>Doctor.id := uuid, Doctor.createdAt := now\<rparr>
        in (Inr doctor,
            s\<lparr>doctorsStorage := insert_store (Doctor.id doctor) doctor (doctorsStorage s)\<rparr>))"

section \<open>Prescriptions and lab tests\<close>

text \<open>
  \<^verbatim>\<open>addPrescription\<close> tests both looked-up \<^verbatim>\<open>Opt\<close> objects with \<^verbatim>\<open>!\<close>, stores
  the prescription, and then reads the health-record table at the key
  \<^verbatim>\<open>payload.patientID\<close>. The guard
  \<^verbatim>\<open>healthRecordOpt && healthRecordOpt.Some?.prescriptionIDs\<close> is \<^verbatim>\<open>undefined\<close>
  (falsy) for \<^verbatim>\<open>{None: null}\<close> and the array \<^verbatim>\<open>prescriptionIDs\<close> otherwise. The rewritten
  record is stored under its own \<^verbatim>\<open>id\<close> field.
\<close>

definition linkPrescription :: "HealthRecord \<Rightarrow> PrescriptionID \<Rightarrow> HealthRecord" where
  "linkPrescription hr prescriptionId =
     (let prescriptionIDs = (if truthy_Vec (HealthRecord.prescriptionIDs hr)
                             then HealthRecord.prescriptionIDs hr else []);
          updatedPrescriptionIDs = Some (prescriptionIDs @ [prescriptionId])
      in \<lparr>HealthRecord.id = HealthRecord.id hr,
          HealthRecord.patientID = HealthRecord.patientID hr,
          HealthRecord.uniqueNumber = HealthRecord.uniqueNumber hr,
          HealthRecord.officerID = HealthRecord.officerID hr,
          HealthRecord.diagnosisNotes = HealthRecord.diagnosisNotes hr,
          HealthRecord.labTestIDs = HealthRecord.labTestIDs hr,
          HealthRecord.prescriptionIDs =
            (case updatedPrescriptionIDs of
               Some xs \<Rightarrow> (if truthy_Vec xs then xs else [])
             | None \<Rightarrow> []),
          HealthRecord.createdAt = HealthRecord.createdAt hr\<rparr>)"

definition addPrescription :: "string \<Rightarrow> nat64 \<Rightarrow> Prescription \<Rightarrow> Stores \<Rightarrow> (Error + Prescription) \<times> Stores" where
  "addPrescription uuid now payload s =
     (if \<not> truthy_text (Prescription.doctorID payload) \<or> \<not> truthy_text (Prescription.patientID payload)
         \<or> \<not> truthy_text (Prescription.medication payload) \<or> \<not> truthy_text (Prescription.dosage payload)
      then (Inl (InvalidPayload ''Invalid prescription payload''), s)
      else
        let existingPatientOpt = get_store (patientsStorage s) (Prescription.patientID payload);
            existingDoctorOpt = get_store (doctorsStorage s) (Prescription.doctorID payload)
        in if \<not> truthy_Opt existingPatientOpt \<or> \<not> truthy_Opt existingDoctorOpt
           then (Inl (NotFound ''Patient or doctor not found''), s)
           else
             let prescription = payload\<lparr>Prescription.id := uuid, Prescription.createdAt := now\<rparr>;
                 s1 = s\<lparr>prescriptionsStorage :=
                         insert_store (Prescription.id prescription) prescription (prescriptionsStorage s)\<rparr>;
                 healthRecordOpt = get_store (healthRecordsStorage s1) (Prescription.patientID payload);
                 s2 = (case healthRecordOpt of
                         None \<Rightarrow> s1
                       | Some hr \<Rightarrow>
                           if truthy_Opt healthRecordOpt \<and> truthy_Vec (HealthRecord.prescriptionIDs hr)
                           then
                             let definedPropertiesHealthRecord =
                                   linkPrescription hr (Prescription.id prescription)
                             in s1\<lparr>healthRecordsStorage :=
                                     insert_store (HealthRecord.id definedPropertiesHealthRecord)
                                       definedPropertiesHealthRecord (healthRecordsStorage s1)\<rparr>
                           else s1)
             in (Inr prescription, s2))"

text \<open>
  \<^verbatim>\<open>addLabTest\<close> has the same shape. Its guard reads \<^verbatim>\<open>labTestIDs\<close>, an
  \<^verbatim>\<open>Opt\<close> object, and \<^verbatim>\<open>healthRecordOpt.Some.labTestIDs.Some || []\<close> is the listed
  ids, or the empty array for \<^verbatim>\<open>{None: null}\<close>. No property of the rewritten record is
  \<^verbatim>\<open>undefined\<close>, so the filter over its entries keeps all of them.
\<close>

definition linkLabTest :: "HealthRecord \<Rightarrow> LabTestID \<Rightarrow> HealthRecord" where
  "linkLabTest hr labTestId =
     (let labTestIDs = (case HealthRecord.labTestIDs hr of
                          Some xs \<Rightarrow> (if truthy_Vec xs then xs else [])
                        | None \<Rightarrow> [])
      in hr\<lparr>HealthRecord.labTestIDs := Some (labTestIDs @ [labTestId])\<rparr>)"

definition addLabTest :: "string \<Rightarrow> nat64 \<Rightarrow> LabTest \<Rightarrow> Stores \<Rightarrow> (Error + LabTest) \<times> Stores" where
  "addLabTest uuid now payload s =
     (if \<not> truthy_text (LabTest.doctorID payload) \<or> \<not> truthy_text (LabTest.patientID payload)
         \<or> \<not> truthy_text (LabTest.testType payload) \<or> \<not> truthy_text (LabTest.results payload)
      then (Inl (InvalidPayload ''Invalid lab test payload''), s)
      else
        let existingPatientOpt = get_store (patientsStorage s) (LabTest.patientID payload);
            existingDoctorOpt = get_store (doctorsStorage s) (LabTest.doctorID payload)
        in if \<not> truthy_Opt existingPatientOpt \<or> \<not> truthy_Opt existingDoctorOpt
           then (Inl (NotFound ''Patient or doctor not found''), s)
           else
             let labTest = payload\<lparr>LabTest.id := uuid, LabTest.createdAt := now\<rparr>;
                 s1 = s\<lparr>labTestsStorage :=
                         insert_store (LabTest.id labTest) labTest (labTestsStorage s)\<rparr>;
                 healthRecordOpt = get_store (healthRecordsStorage s1) (LabTest.patientID payload);
                 s2 = (case healthRecordOpt of
                         None \<Rightarrow> s1
                       | Some hr \<Rightarrow>
                           if truthy_Opt healthRecordOpt \<and> truthy_Opt (HealthRecord.labTestIDs hr)
                           then
                             let definedPropertiesHealthRecord = linkLabTest hr (LabTest.id labTest)
                             in s1\<lparr>healthRecordsStorage :=
                                     insert_store (HealthRecord.id definedPropertiesHealthRecord)
                                       definedPropertiesHealthRecord (healthRecordsStorage s1)\<rparr>
                           else s1)
             in (Inr labTest, s2))"

section \<open>Reachable tables\<close>

text \<open>
  The tables are module state: they start empty and change only through the seven update
  functions. Every identifier that \<^verbatim>\<open>uuidv4()\<close> returns is a non-empty string.
\<close>

inductive reachable :: "Stores \<Rightarrow> bool" where
  r_init: "reachable emptyStores"
| r_addPatient: "reachable s \<Longrightarrow> uuid \<noteq> [] \<Longrightarrow> reachable (snd (addPatient uuid now p s))"
| r_updatePatient: "reachable s \<Longrightarrow> reachable (snd (updatePatient pid now p s))"
| r_deletePatient: "reachable s \<Longrightarrow> reachable (snd (deletePatient pid s))"
| r_addHealthRecord: "reachable s \<Longrightarrow> uuid \<noteq> [] \<Longrightarrow> reachable (snd (addHealthRecord uuid now h s))"
| r_addDoctor: "reachable s \<Longrightarrow> uuid \<noteq> [] \<Longrightarrow> reachable (snd (addDoctor uuid now d s))"
| r_addPrescription: "reachable s \<Longrightarrow> uuid \<noteq> [] \<Longrightarrow> reachable (snd (addPrescription uuid now pr s))"
| r_addLabTest: "reachable s \<Longrightarrow> uuid \<noteq> [] \<Longrightarrow> reachable (snd (addLabTest uuid now l s))"

text \<open>Every health record is stored under its own \<^verbatim>\<open>id\<close>.\<close>

definition keyed_by_id :: "(string \<rightharpoonup> HealthRecord) \<Rightarrow> bool" where
  "keyed_by_id m = (\<forall>k hr. m k = Some hr \<longrightarrow> HealthRecord.id hr = k)"

section \<open>Predicates and inputs used in the statements\<close>

fun isNotFound :: "Error + 'a \<Rightarrow> bool" where
  "isNotFound (Inl (NotFound msg)) = True"
| "isNotFound (Inl (InvalidPayload msg)) = False"
| "isNotFound (Inr v) = False"

fun isInvalidPayload :: "Error + 'a \<Rightarrow> bool" where
  "isInvalidPayload (Inl (InvalidPayload msg)) = True"
| "isInvalidPayload (Inl (NotFound msg)) = False"
| "isInvalidPayload (Inr v) = False"

text \<open>
  The Validator rules for a Patient payload in the words of the specification: all of
  name, age, gender, bloodType and medicalHistory present and non-empty, age above zero,
  gender one of the two literals, bloodType one of the four literals, medicalHistory at
  most 1000 characters long.
\<close>

definition Validator_Patient :: "Patient \<Rightarrow> bool" where
  "Validator_Patient payload =
     (Patient.name payload \<noteq> [] \<and> Patient.age payload \<noteq> 0 \<and> Patient.gender payload \<noteq> []
      \<and> Patient.bloodType payload \<noteq> [] \<and> Patient.medicalHistory payload \<noteq> []
      \<and> 0 < Patient.age payload
      \<and> Patient.gender payload \<in> {''male'', ''female''}
      \<and> Patient.bloodType payload \<in> {''A'', ''B'', ''AB'', ''O''}
      \<and> length (Patient.medicalHistory payload) \<le> 1000)"

text \<open>
  The payload of the specification's example. A payload of type \<^verbatim>\<open>Patient\<close> also has
  the fields \<^verbatim>\<open>id\<close>, \<^verbatim>\<open>createdAt\<close> and \<^verbatim>\<open>updatedAt\<close>, which the example leaves
  open.
\<close>

definition alicePayload :: "PatientID \<Rightarrow> nat64 \<Rightarrow> nat64 option \<Rightarrow> string \<Rightarrow> Patient" where
  "alicePayload i c u mh =
     \<lparr>Patient.id = i, Patient.name = ''Alice'', Patient.age = 30, Patient.gender = ''female'',
      Patient.bloodType = ''O'', Patient.medicalHistory = mh, Patient.createdAt = c,
      Patient.updatedAt = u\<rparr>"

text \<open>The tables after one accepted \<^verbatim>\<open>addPatient\<close> call on the empty canister.\<close>

definition onePatient :: Stores where
  "onePatient = snd (addPatient ''p1'' 5 (alicePayload [] 0 None ''none'') emptyStores)"

definition bobPayload :: "string \<Rightarrow> string \<Rightarrow> string \<Rightarrow> Patient" where
  "bobPayload g b mh =
     \<lparr>Patient.id = ''p1'', Patient.name = ''Bob'', Patient.age = 41, Patient.gender = g,
      Patient.bloodType = b, Patient.medicalHistory = mh, Patient.createdAt = 5,
      Patient.updatedAt = None\<rparr>"

definition otherIdPayload :: Patient where
  "otherIdPayload =
     \<lparr>Patient.id = ''p2'', Patient.name = ''Bob'', Patient.age = 41, Patient.gender = ''male'',
      Patient.bloodType = ''A'', Patient.medicalHistory = ''asthma'', Patient.createdAt = 100,
      Patient.updatedAt = None\<rparr>"

definition rxPayload :: "PatientID \<Rightarrow> Prescription" where
  "rxPayload pid =
     \<lparr>Prescription.id = [], Prescription.doctorID = ''d1'', Prescription.patientID = pid,
      Prescription.medication = ''aspirin'', Prescription.dosage = ''100mg'',
      Prescription.createdAt = 0\<rparr>"

definition labPayload :: "PatientID \<Rightarrow> LabTest" where
  "labPayload pid =
     \<lparr>LabTest.id = [], LabTest.patientID = pid, LabTest.doctorID = ''d1'',
      LabTest.testType = ''blood'', LabTest.results = ''ok'', LabTest.createdAt = 0\<rparr>"

definition hrPayload :: HealthRecord where
  "hrPayload =
     \<lparr>HealthRecord.id = [], HealthRecord.patientID = ''p1'', HealthRecord.uniqueNumber = ''n1'',
      HealthRecord.officerID = ''d1'', HealthRecord.diagnosisNotes = ''flu'',
      HealthRecord.labTestIDs = Some [''x''], HealthRecord.prescriptionIDs = [''y''],
      HealthRecord.createdAt = 0\<rparr>"

text \<open>The tables after one \<^verbatim>\<open>addHealthRecord\<close> call on the empty canister.\<close>

definition oneHealthRecord :: Stores where
  "oneHealthRecord = snd (addHealthRecord ''h1'' 6 hrPayload emptyStores)"

section \<open>Basic facts\<close>

lemmas truthy_defs = truthy_text_def truthy_number_def truthy_Vec_def
lemmas store_defs = insert_store_def get_store_def remove_store_def

lemma truthy_Opt_always: "truthy_Opt x"
  by (cases x) simp_all

lemma remove_store_absent: "m k = None \<Longrightarrow> remove_store k m = (None, m)"
  unfolding remove_store_def by (metis fun_upd_triv)

lemma linkPrescription_id: "HealthRecord.id (linkPrescription hr x) = HealthRecord.id hr"
  by (simp add: linkPrescription_def Let_def)

lemma linkLabTest_id: "HealthRecord.id (linkLabTest hr x) = HealthRecord.id hr"
  by (simp add: linkLabTest_def)

subsection \<open>An error leaves the tables as they were\<close>

lemma addPatient_err: "addPatient u t p s = (Inl e, s') \<Longrightarrow> s' = s"
  by (auto simp: addPatient_def Let_def split: if_splits)

lemma updatePatient_err: "updatePatient i t p s = (Inl e, s') \<Longrightarrow> s' = s"
  by (auto simp: updatePatient_def Let_def split: if_splits option.splits)

lemma deletePatient_err:
  assumes "deletePatient i s = (Inl e, s')"
  shows "s' = s"
proof (cases "patientsStorage s i")
  case None
  then show ?thesis
    using assms by (auto simp: deletePatient_def remove_store_absent split: if_splits)
next
  case (Some a)
  then show ?thesis
    using assms by (auto simp: deletePatient_def remove_store_def split: if_splits)
qed

lemma addDoctor_err: "addDoctor u t d s = (Inl e, s') \<Longrightarrow> s' = s"
  by (auto simp: addDoctor_def Let_def split: if_splits)

lemma addHealthRecord_err: "addHealthRecord u t h s = (Inl e, s') \<Longrightarrow> s' = s"
  by (auto simp: addHealthRecord_def Let_def split: if_splits)

lemma addPrescription_err: "addPrescription u t pr s = (Inl e, s') \<Longrightarrow> s' = s"
  by (auto simp: addPrescription_def Let_def split: if_splits)

lemma addLabTest_err: "addLabTest u t l s = (Inl e, s') \<Longrightarrow> s' = s"
  by (auto simp: addLabTest_def Let_def split: if_splits)

subsection \<open>What an accepted call stores\<close>

lemma addPatient_valid:
  assumes "Validator_Patient p"
  shows "addPatient u t p s =
     (Inr (p\<lparr>Patient.id := u, Patient.createdAt := t, Patient.updatedAt := None\<rparr>),
      s\<lparr>patientsStorage := (patientsStorage s)
           (u \<mapsto> p\<lparr>Patient.id := u, Patient.createdAt := t, Patient.updatedAt := None\<rparr>)\<rparr>)"
  using assms
  by (auto simp: Validator_Patient_def addPatient_def patientFieldMissing_def truthy_defs
      Let_def insert_store_def)

text \<open>The guards of \<^verbatim>\<open>addPatient\<close> accept exactly the payloads the Validator rules describe.\<close>

lemma addPatient_ok_iff:
  "(\<exists>pat s'. addPatient u t p s = (Inr pat, s')) \<longleftrightarrow> Validator_Patient p"
  by (auto simp: Validator_Patient_def addPatient_def patientFieldMissing_def truthy_defs
      Let_def split: if_splits)

text \<open>
  The guard on the looked-up \<^verbatim>\<open>Opt\<close> objects never fires: with all required fields
  present, \<^verbatim>\<open>addHealthRecord\<close>, \<^verbatim>\<open>addPrescription\<close> and \<^verbatim>\<open>addLabTest\<close> store
  their record whatever the patient and doctor tables hold.
\<close>

lemma addHealthRecord_ok:
  assumes "HealthRecord.patientID h \<noteq> []" "HealthRecord.officerID h \<noteq> []"
    "HealthRecord.diagnosisNotes h \<noteq> []"
  shows "addHealthRecord u t h s =
    (Inr (h\<lparr>HealthRecord.id := u, HealthRecord.createdAt := t,
            HealthRecord.labTestIDs := None, HealthRecord.prescriptionIDs := []\<rparr>),
     s\<lparr>healthRecordsStorage := (healthRecordsStorage s)
          (u \<mapsto> h\<lparr>HealthRecord.id := u, HealthRecord.createdAt := t,
                  HealthRecord.labTestIDs := None, HealthRecord.prescriptionIDs := []\<rparr>)\<rparr>)"
  using assms by (simp add: addHealthRecord_def truthy_defs Let_def truthy_Opt_always store_defs)

lemma addPrescription_ok:
  assumes "Prescription.doctorID pr \<noteq> []" "Prescription.patientID pr \<noteq> []"
    "Prescription.medication pr \<noteq> []" "Prescription.dosage pr \<noteq> []"
  shows "fst (addPrescription u t pr s) =
           Inr (pr\<lparr>Prescription.id := u, Prescription.createdAt := t\<rparr>)
       \<and> prescriptionsStorage (snd (addPrescription u t pr s)) u =
           Some (pr\<lparr>Prescription.id := u, Prescription.createdAt := t\<rparr>)"
  using assms
  by (simp add: addPrescription_def truthy_defs Let_def truthy_Opt_always store_defs
      split: option.splits)

lemma addLabTest_ok:
  assumes "LabTest.doctorID l \<noteq> []" "LabTest.patientID l \<noteq> []"
    "LabTest.testType l \<noteq> []" "LabTest.results l \<noteq> []"
  shows "fst (addLabTest u t l s) = Inr (l\<lparr>LabTest.id := u, LabTest.createdAt := t\<rparr>)
       \<and> labTestsStorage (snd (addLabTest u t l s)) u =
           Some (l\<lparr>LabTest.id := u, LabTest.createdAt := t\<rparr>)"
  using assms
  by (simp add: addLabTest_def truthy_defs Let_def truthy_Opt_always store_defs
      split: option.splits)

subsection \<open>The patients table under each update function\<close>

lemma addPatient_patients:
  "patientsStorage (snd (addPatient u t p s)) = patientsStorage s
   \<or> patientsStorage (snd (addPatient u t p s)) =
       (patientsStorage s)
         (u \<mapsto> p\<lparr>Patient.id := u, Patient.createdAt := t, Patient.updatedAt := None\<rparr>)"
  by (simp add: addPatient_def Let_def insert_store_def)

lemma updatePatient_dom:
  "dom (patientsStorage (snd (updatePatient i t p s))) = dom (patientsStorage s)"
  by (auto simp: updatePatient_def Let_def store_defs split: option.splits if_splits)

lemma deletePatient_patients:
  "patientsStorage (snd (deletePatient i s)) = patientsStorage s
   \<or> patientsStorage (snd (deletePatient i s)) = (patientsStorage s)(i := None)"
  by (simp add: deletePatient_def remove_store_def Let_def split: option.splits)

lemma addHealthRecord_patients:
  "patientsStorage (snd (addHealthRecord u t h s)) = patientsStorage s"
  by (simp add: addHealthRecord_def Let_def)

lemma addDoctor_patients: "patientsStorage (snd (addDoctor u t d s)) = patientsStorage s"
  by (simp add: addDoctor_def Let_def)

lemma addPrescription_patients:
  "patientsStorage (snd (addPrescription u t pr s)) = patientsStorage s"
  by (simp add: addPrescription_def Let_def split: option.splits)

lemma addLabTest_patients: "patientsStorage (snd (addLabTest u t l s)) = patientsStorage s"
  by (simp add: addLabTest_def Let_def split: option.splits)

text \<open>No reachable patients table has the empty string as a key.\<close>

lemma reachable_patient_keys: "reachable s \<Longrightarrow> patientsStorage s [] = None"
proof (induction rule: reachable.induct)
  case r_init
  show ?case by (simp add: emptyStores_def)
next
  case (r_addPatient s uuid now p)
  then show ?case using addPatient_patients[of uuid now p s] by auto
next
  case (r_updatePatient s pid now p)
  then show ?case using updatePatient_dom[of pid now p s] by (metis domIff)
next
  case (r_deletePatient s pid)
  then show ?case using deletePatient_patients[of pid s] by auto
next
  case (r_addHealthRecord s uuid now h)
  then show ?case by (simp add: addHealthRecord_patients)
next
  case (r_addDoctor s uuid now d)
  then show ?case by (simp add: addDoctor_patients)
next
  case (r_addPrescription s uuid now pr)
  then show ?case by (simp add: addPrescription_patients)
next
  case (r_addLabTest s uuid now l)
  then show ?case by (simp add: addLabTest_patients)
qed

subsection \<open>The health-record table under each update function\<close>

lemma keyed_by_id_upd:
  "keyed_by_id m \<Longrightarrow> HealthRecord.id hr = k \<Longrightarrow> keyed_by_id (m(k \<mapsto> hr))"
  by (simp add: keyed_by_id_def)

lemma addPatient_hrs: "healthRecordsStorage (snd (addPatient u t p s)) = healthRecordsStorage s"
  by (simp add: addPatient_def Let_def)

lemma updatePatient_hrs:
  "healthRecordsStorage (snd (updatePatient i t p s)) = healthRecordsStorage s"
  by (simp add: updatePatient_def Let_def split: option.splits)

lemma deletePatient_hrs: "healthRecordsStorage (snd (deletePatient i s)) = healthRecordsStorage s"
  by (simp add: deletePatient_def remove_store_def Let_def split: option.splits)

lemma addDoctor_hrs: "healthRecordsStorage (snd (addDoctor u t d s)) = healthRecordsStorage s"
  by (simp add: addDoctor_def Let_def)

lemma addHealthRecord_hrs:
  "healthRecordsStorage (snd (addHealthRecord u t h s)) =
     (if \<not> truthy_text (HealthRecord.patientID h) \<or> \<not> truthy_text (HealthRecord.officerID h)
         \<or> \<not> truthy_text (HealthRecord.diagnosisNotes h)
      then healthRecordsStorage s
      else (healthRecordsStorage s)
             (u \<mapsto> h\<lparr>HealthRecord.id := u, HealthRecord.createdAt := t,
                     HealthRecord.labTestIDs := None, HealthRecord.prescriptionIDs := []\<rparr>))"
  by (simp add: addHealthRecord_def Let_def insert_store_def truthy_Opt_always)

lemma addPrescription_hrs:
  "healthRecordsStorage (snd (addPrescription u t pr s)) =
     (if \<not> truthy_text (Prescription.doctorID pr) \<or> \<not> truthy_text (Prescription.patientID pr)
         \<or> \<not> truthy_text (Prescription.medication pr) \<or> \<not> truthy_text (Prescription.dosage pr)
      then healthRecordsStorage s
      else case healthRecordsStorage s (Prescription.patientID pr) of
             None \<Rightarrow> healthRecordsStorage s
           | Some hr \<Rightarrow> (healthRecordsStorage s)(HealthRecord.id hr \<mapsto> linkPrescription hr u))"
  by (simp add: addPrescription_def Let_def store_defs truthy_Vec_def truthy_Opt_always
      linkPrescription_id split: option.splits)

lemma addLabTest_hrs:
  "healthRecordsStorage (snd (addLabTest u t l s)) =
     (if \<not> truthy_text (LabTest.doctorID l) \<or> \<not> truthy_text (LabTest.patientID l)
         \<or> \<not> truthy_text (LabTest.testType l) \<or> \<not> truthy_text (LabTest.results l)
      then healthRecordsStorage s
      else case healthRecordsStorage s (LabTest.patientID l) of
             None \<Rightarrow> healthRecordsStorage s
           | Some hr \<Rightarrow> (healthRecordsStorage s)(HealthRecord.id hr \<mapsto> linkLabTest hr u))"
  by (simp add: addLabTest_def Let_def store_defs truthy_Opt_always linkLabTest_id
      split: option.splits)

lemma reachable_keyed_by_id: "reachable s \<Longrightarrow> keyed_by_id (healthRecordsStorage s)"
proof (induction rule: reachable.induct)
  case r_init
  show ?case by (simp add: emptyStores_def keyed_by_id_def)
next
  case (r_addHealthRecord s uuid now h)
  then show ?case by (simp add: addHealthRecord_hrs keyed_by_id_upd)
next
  case (r_addPrescription s uuid now pr)
  then show ?case
    by (auto simp: addPrescription_hrs linkPrescription_id intro!: keyed_by_id_upd
        split: option.splits)
next
  case (r_addLabTest s uuid now l)
  then show ?case
    by (auto simp: addLabTest_hrs linkLabTest_id intro!: keyed_by_id_upd split: option.splits)
qed (simp_all add: addPatient_hrs updatePatient_hrs deletePatient_hrs addDoctor_hrs)

subsection \<open>The other tables under \<^verbatim>\<open>addPrescription\<close> and \<^verbatim>\<open>addLabTest\<close>\<close>

lemma addPrescription_doctors:
  "doctorsStorage (snd (addPrescription u t pr s)) = doctorsStorage s"
  by (simp add: addPrescription_def Let_def split: option.splits)

lemma addPrescription_labTests:
  "labTestsStorage (snd (addPrescription u t pr s)) = labTestsStorage s"
  by (simp add: addPrescription_def Let_def split: option.splits)

lemma addPrescription_prescriptions:
  "prescriptionsStorage (snd (addPrescription u t pr s)) = prescriptionsStorage s
   \<or> prescriptionsStorage (snd (addPrescription u t pr s)) =
       (prescriptionsStorage s)(u \<mapsto> pr\<lparr>Prescription.id := u, Prescription.createdAt := t\<rparr>)"
  by (simp add: addPrescription_def Let_def insert_store_def split: option.splits)

lemma addLabTest_doctors: "doctorsStorage (snd (addLabTest u t l s)) = doctorsStorage s"
  by (simp add: addLabTest_def Let_def split: option.splits)

lemma addLabTest_prescriptions:
  "prescriptionsStorage (snd (addLabTest u t l s)) = prescriptionsStorage s"
  by (simp add: addLabTest_def Let_def split: option.splits)

lemma addLabTest_labTests:
  "labTestsStorage (snd (addLabTest u t l s)) = labTestsStorage s
   \<or> labTestsStorage (snd (addLabTest u t l s)) =
       (labTestsStorage s)(u \<mapsto> l\<lparr>LabTest.id := u, LabTest.createdAt := t\<rparr>)"
  by (simp add: addLabTest_def Let_def insert_store_def split: option.splits)

lemma addPrescription_rewrites_one:
  assumes "reachable s \<or> keyed_by_id (healthRecordsStorage s)"
  shows "healthRecordsStorage (snd (addPrescription u t pr s)) = healthRecordsStorage s
     \<or> (\<exists>k hr. healthRecordsStorage s k = Some hr
          \<and> healthRecordsStorage (snd (addPrescription u t pr s)) =
              (healthRecordsStorage s)(k \<mapsto> linkPrescription hr u))"
proof (cases "healthRecordsStorage s (Prescription.patientID pr)")
  case None
  then show ?thesis by (simp add: addPrescription_hrs)
next
  case (Some hr)
  from assms have "keyed_by_id (healthRecordsStorage s)"
    by (auto intro: reachable_keyed_by_id)
  with Some have "HealthRecord.id hr = Prescription.patientID pr"
    by (simp add: keyed_by_id_def)
  with Some show ?thesis by (auto simp: addPrescription_hrs)
qed

lemma addLabTest_rewrites_one:
  assumes "reachable s \<or> keyed_by_id (healthRecordsStorage s)"
  shows "healthRecordsStorage (snd (addLabTest u t l s)) = healthRecordsStorage s
     \<or> (\<exists>k hr. healthRecordsStorage s k = Some hr
          \<and> healthRecordsStorage (snd (addLabTest u t l s)) =
              (healthRecordsStorage s)(k \<mapsto> linkLabTest hr u))"
proof (cases "healthRecordsStorage s (LabTest.patientID l)")
  case None
  then show ?thesis by (simp add: addLabTest_hrs)
next
  case (Some hr)
  from assms have "keyed_by_id (healthRecordsStorage s)"
    by (auto intro: reachable_keyed_by_id)
  with Some have "HealthRecord.id hr = LabTest.patientID l"
    by (simp add: keyed_by_id_def)
  with Some show ?thesis by (auto simp: addLabTest_hrs)
qed

subsection \<open>The example tables\<close>

lemma reachable_onePatient: "reachable onePatient"
  unfolding onePatient_def by (rule r_addPatient[OF r_init]) simp

lemma reachable_oneHealthRecord: "reachable oneHealthRecord"
  unfolding oneHealthRecord_def by (rule r_addHealthRecord[OF r_init]) simp

lemma onePatient_eq:
  "onePatient = emptyStores\<lparr>patientsStorage := [''p1'' \<mapsto> alicePayload ''p1'' 5 None ''none'']\<rparr>"
  by (simp add: onePatient_def addPatient_def patientFieldMissing_def truthy_defs Let_def
      alicePayload_def insert_store_def emptyStores_def)

lemma oneHealthRecord_eq:
  "oneHealthRecord = emptyStores\<lparr>healthRecordsStorage :=
     [''h1'' \<mapsto> hrPayload\<lparr>HealthRecord.id := ''h1'', HealthRecord.createdAt := 6,
        HealthRecord.labTestIDs := None, HealthRecord.prescriptionIDs := []\<rparr>]\<rparr>"
  by (simp add: oneHealthRecord_def addHealthRecord_def truthy_defs Let_def hrPayload_def
      insert_store_def get_store_def emptyStores_def)

section \<open>The claims\<close>

text \<open>
  C1. The specification says that \<^verbatim>\<open>addPrescription\<close> returns a NotFound error and
  inserts no Prescription when \<^verbatim>\<open>doctorID\<close> is not a key of the doctors table or
  \<^verbatim>\<open>patientID\<close> is not a key of the patients table. The code does not: on the empty
  tables, where neither \<^verbatim>\<open>p1\<close> nor \<^verbatim>\<open>d1\<close> is a key, the call with the payload
  \<^verbatim>\<open>{doctorID: "d1", patientID: "p1", medication: "aspirin", dosage: "100mg"}\<close> returns
  Ok with the new Prescription and stores it under its id. The guard
  \<^verbatim>\<open>!existingPatientOpt || !existingDoctorOpt\<close> tests two objects and is never true.
\<close>

theorem addPrescription_unknown_refs_stored:
  "patientsStorage emptyStores ''p1'' = None \<and> doctorsStorage emptyStores ''d1'' = None
   \<and> fst (addPrescription ''rx1'' 7 (rxPayload ''p1'') emptyStores)
       = Inr \<lparr>Prescription.id = ''rx1'', Prescription.doctorID = ''d1'',
              Prescription.patientID = ''p1'', Prescription.medication = ''aspirin'',
              Prescription.dosage = ''100mg'', Prescription.createdAt = 7\<rparr>
   \<and> prescriptionsStorage (snd (addPrescription ''rx1'' 7 (rxPayload ''p1'') emptyStores)) ''rx1''
       = Some \<lparr>Prescription.id = ''rx1'', Prescription.doctorID = ''d1'',
              Prescription.patientID = ''p1'', Prescription.medication = ''aspirin'',
              Prescription.dosage = ''100mg'', Prescription.createdAt = 7\<rparr>"
  by (simp add: addPrescription_def rxPayload_def emptyStores_def truthy_defs Let_def store_defs)

theorem addPrescription_unknown_refs_stored_witness:
  "\<not> isNotFound (fst (addPrescription ''rx1'' 7 (rxPayload ''p1'') emptyStores))
   \<and> prescriptionsStorage (snd (addPrescription ''rx1'' 7 (rxPayload ''p1'') emptyStores))
       \<noteq> prescriptionsStorage emptyStores"
proof -
  have "prescriptionsStorage emptyStores ''rx1'' = None"
    by (simp add: emptyStores_def)
  with addPrescription_unknown_refs_stored show ?thesis
    by (metis isNotFound.simps(3) option.distinct(1))
qed

text \<open>
  C2. The specification says that a successful \<^verbatim>\<open>updatePatient(id, payload)\<close> returns
  and stores a record whose \<^verbatim>\<open>id\<close> field still equals \<^verbatim>\<open>id\<close> and whose
  \<^verbatim>\<open>updatedAt\<close> is present and at least its \<^verbatim>\<open>createdAt\<close>. The code does not:
  the payload has the type \<^verbatim>\<open>Patient\<close> and is spread over the existing record, so its
  \<^verbatim>\<open>id\<close> and \<^verbatim>\<open>createdAt\<close> replace the stored ones. With the patient \<^verbatim>\<open>p1\<close>
  created at time 5, the call \<^verbatim>\<open>updatePatient("p1", payload)\<close> at time 10 with a payload
  carrying \<^verbatim>\<open>id: "p2"\<close> and \<^verbatim>\<open>createdAt: 100\<close> returns, and stores under the key
  \<^verbatim>\<open>p1\<close>, a record with id \<^verbatim>\<open>p2\<close>, createdAt 100 and updatedAt 10.
\<close>

theorem updatePatient_payload_replaces_id:
  "patientsStorage onePatient ''p1'' = Some (alicePayload ''p1'' 5 None ''none'')
   \<and> fst (updatePatient ''p1'' 10 otherIdPayload onePatient)
       = Inr \<lparr>Patient.id = ''p2'', Patient.name = ''Bob'', Patient.age = 41,
              Patient.gender = ''male'', Patient.bloodType = ''A'',
              Patient.medicalHistory = ''asthma'', Patient.createdAt = 100,
              Patient.updatedAt = Some 10\<rparr>
   \<and> patientsStorage (snd (updatePatient ''p1'' 10 otherIdPayload onePatient)) ''p1''
       = Some \<lparr>Patient.id = ''p2'', Patient.name = ''Bob'', Patient.age = 41,
              Patient.gender = ''male'', Patient.bloodType = ''A'',
              Patient.medicalHistory = ''asthma'', Patient.createdAt = 100,
              Patient.updatedAt = Some 10\<rparr>"
  by (simp add: onePatient_eq updatePatient_def otherIdPayload_def patientFieldMissing_def
      truthy_defs Let_def store_defs spreadPatient_def alicePayload_def emptyStores_def)

theorem updatePatient_payload_replaces_id_witness:
  "(case fst (updatePatient ''p1'' 10 otherIdPayload onePatient) of
      Inl e \<Rightarrow> False
    | Inr r \<Rightarrow> Patient.id r \<noteq> ''p1'' \<and> Patient.updatedAt r = Some 10
              \<and> \<not> Patient.createdAt r \<le> 10)"
  using updatePatient_payload_replaces_id by simp

text \<open>
  C3. For every patient payload that passes all Validator rules, \<^verbatim>\<open>addPatient\<close>
  returns Ok with the id that \<^verbatim>\<open>uuidv4()\<close> supplied (a non-empty string), and
  \<^verbatim>\<open>getPatient\<close> on that id afterwards returns the same record: the fields of the
  payload with that id, the \<^verbatim>\<open>createdAt\<close> taken at creation and \<^verbatim>\<open>updatedAt\<close>
  absent.
\<close>

theorem addPatient_then_getPatient:
  assumes "Validator_Patient payload" and "uuid \<noteq> []"
  shows "fst (addPatient uuid now payload s) =
           Inr (payload\<lparr>Patient.id := uuid, Patient.createdAt := now, Patient.updatedAt := None\<rparr>)
       \<and> getPatient uuid (snd (addPatient uuid now payload s)) =
           Inr (payload\<lparr>Patient.id := uuid, Patient.createdAt := now, Patient.updatedAt := None\<rparr>)"
  using assms(2)
  by (simp add: addPatient_valid[OF assms(1)] getPatient_def truthy_text_def get_store_def)

theorem addPatient_then_getPatient_witness:
  "Validator_Patient (alicePayload [] 0 None ''none'') \<and> ''p1'' \<noteq> []
   \<and> fst (addPatient ''p1'' 5 (alicePayload [] 0 None ''none'') emptyStores)
       = Inr (alicePayload ''p1'' 5 None ''none'')
   \<and> getPatient ''p1'' (snd (addPatient ''p1'' 5 (alicePayload [] 0 None ''none'') emptyStores))
       = Inr (alicePayload ''p1'' 5 None ''none'')"
proof -
  have v: "Validator_Patient (alicePayload [] 0 None ''none'')"
    by (simp add: Validator_Patient_def alicePayload_def)
  have n: "''p1'' \<noteq> []" by simp
  have e: "(alicePayload [] 0 None ''none'')\<lparr>Patient.id := ''p1'', Patient.createdAt := 5,
              Patient.updatedAt := None\<rparr> = alicePayload ''p1'' 5 None ''none''"
    by (simp add: alicePayload_def)
  from addPatient_then_getPatient[OF v n, of 5 emptyStores] v n show ?thesis
    unfolding e by blast
qed

text \<open>
  C4. For each of \<^verbatim>\<open>addPatient\<close>, \<^verbatim>\<open>updatePatient\<close>, \<^verbatim>\<open>deletePatient\<close>,
  \<^verbatim>\<open>addDoctor\<close>, \<^verbatim>\<open>addHealthRecord\<close>, \<^verbatim>\<open>addPrescription\<close> and
  \<^verbatim>\<open>addLabTest\<close>, every input and all tables: if the call returns an error, all five
  tables are exactly as they were before the call.
\<close>

theorem error_leaves_stores_unchanged:
  "(addPatient u t p s = (Inl e, s') \<longrightarrow> s' = s)
 \<and> (updatePatient i t p s = (Inl e, s') \<longrightarrow> s' = s)
 \<and> (deletePatient i s = (Inl e, s') \<longrightarrow> s' = s)
 \<and> (addDoctor u t d s = (Inl e, s') \<longrightarrow> s' = s)
 \<and> (addHealthRecord u t h s = (Inl e, s') \<longrightarrow> s' = s)
 \<and> (addPrescription u t pr s = (Inl e, s') \<longrightarrow> s' = s)
 \<and> (addLabTest u t l s = (Inl e, s') \<longrightarrow> s' = s)"
  by (intro conjI impI)
     (erule addPatient_err updatePatient_err deletePatient_err addDoctor_err
        addHealthRecord_err addPrescription_err addLabTest_err)+

theorem error_leaves_stores_unchanged_witness:
  "addPatient ''u1'' 1 (alicePayload [] 0 None []) onePatient
       = (Inl (InvalidPayload ''Invalid patient payload''), onePatient)
   \<and> updatePatient ''p2'' 1 (alicePayload [] 0 None ''none'') onePatient
       = (Inl (NotFound ''Couldn't update a patient with ID p2. Patient not found''), onePatient)
   \<and> deletePatient ''p2'' onePatient
       = (Inl (NotFound ''Couldn't delete a patient with ID p2. Patient not found''), onePatient)
   \<and> addDoctor ''u1'' 1 \<lparr>Doctor.id = [], Doctor.name = [], Doctor.specialization = ''x'',
         Doctor.createdAt = 0\<rparr> onePatient
       = (Inl (InvalidPayload ''Invalid doctor payload''), onePatient)
   \<and> addHealthRecord ''u1'' 1 (hrPayload\<lparr>HealthRecord.officerID := []\<rparr>) onePatient
       = (Inl (InvalidPayload ''Invalid health record payload''), onePatient)
   \<and> addPrescription ''u1'' 1 (rxPayload []) onePatient
       = (Inl (InvalidPayload ''Invalid prescription payload''), onePatient)
   \<and> addLabTest ''u1'' 1 (labPayload []) onePatient
       = (Inl (InvalidPayload ''Invalid lab test payload''), onePatient)"
proof -
  let ?e = "NotFound ''Couldn't delete a patient with ID p2. Patient not found''"
  have d: "fst (deletePatient ''p2'' onePatient) = Inl ?e"
    by (simp add: deletePatient_def truthy_defs remove_store_def onePatient_eq emptyStores_def)
  then have "deletePatient ''p2'' onePatient = (Inl ?e, snd (deletePatient ''p2'' onePatient))"
    by (metis prod.collapse)
  with error_leaves_stores_unchanged[of _ _ _ onePatient ?e
        "snd (deletePatient ''p2'' onePatient)" "''p2''"]
  have "snd (deletePatient ''p2'' onePatient) = onePatient" by blast
  with d have "deletePatient ''p2'' onePatient = (Inl ?e, onePatient)"
    by (metis prod.collapse)
  then show ?thesis
    by (simp add: addPatient_def updatePatient_def addDoctor_def addHealthRecord_def
        addPrescription_def addLabTest_def patientFieldMissing_def truthy_defs alicePayload_def
        hrPayload_def rxPayload_def labPayload_def get_store_def onePatient_eq emptyStores_def)
qed

text \<open>
  C5. The specification says that \<^verbatim>\<open>updatePatient\<close> on an existing id rejects, with
  InvalidPayload and without touching the patients table, a payload whose age is not
  positive, whose gender is outside male/female, whose bloodType is outside A/B/AB/O or
  whose medicalHistory is longer than 1000 characters. The code applies only the presence
  guard: for the stored patient \<^verbatim>\<open>p1\<close>, payloads with gender \<^verbatim>\<open>other\<close>, with
  bloodType \<^verbatim>\<open>Z\<close> and with a medicalHistory of 1001 characters are each accepted,
  returned and stored.
\<close>

theorem updatePatient_skips_field_rules:
  "patientsStorage onePatient ''p1'' = Some (alicePayload ''p1'' 5 None ''none'')
   \<and> fst (updatePatient ''p1'' 10 (bobPayload ''other'' ''A'' ''asthma'') onePatient)
       = Inr ((bobPayload ''other'' ''A'' ''asthma'')\<lparr>Patient.updatedAt := Some 10\<rparr>)
   \<and> patientsStorage
        (snd (updatePatient ''p1'' 10 (bobPayload ''other'' ''A'' ''asthma'') onePatient)) ''p1''
       = Some ((bobPayload ''other'' ''A'' ''asthma'')\<lparr>Patient.updatedAt := Some 10\<rparr>)
   \<and> fst (updatePatient ''p1'' 10 (bobPayload ''male'' ''Z'' ''asthma'') onePatient)
       = Inr ((bobPayload ''male'' ''Z'' ''asthma'')\<lparr>Patient.updatedAt := Some 10\<rparr>)
   \<and> fst (updatePatient ''p1'' 10 (bobPayload ''male'' ''A'' (replicate 1001 CHR ''x'')) onePatient)
       = Inr ((bobPayload ''male'' ''A'' (replicate 1001 CHR ''x''))\<lparr>Patient.updatedAt := Some 10\<rparr>)"
  by (simp add: onePatient_eq updatePatient_def bobPayload_def patientFieldMissing_def
      truthy_defs Let_def store_defs spreadPatient_def alicePayload_def emptyStores_def)

theorem updatePatient_skips_field_rules_witness:
  "\<not> isInvalidPayload (fst (updatePatient ''p1'' 10 (bobPayload ''other'' ''A'' ''asthma'') onePatient))
   \<and> patientsStorage
        (snd (updatePatient ''p1'' 10 (bobPayload ''other'' ''A'' ''asthma'') onePatient)) ''p1''
       \<noteq> patientsStorage onePatient ''p1''
   \<and> \<not> Validator_Patient (bobPayload ''other'' ''A'' ''asthma'')"
proof -
  have "(bobPayload ''other'' ''A'' ''asthma'')\<lparr>Patient.updatedAt := Some 10\<rparr>
          \<noteq> alicePayload ''p1'' 5 None ''none''"
    by (simp add: bobPayload_def alicePayload_def)
  moreover have "\<not> Validator_Patient (bobPayload ''other'' ''A'' ''asthma'')"
    by (simp add: Validator_Patient_def bobPayload_def)
  ultimately show ?thesis
    using updatePatient_skips_field_rules by simp
qed

text \<open>
  C6. The specification says that \<^verbatim>\<open>addHealthRecord\<close>, given non-empty
  \<^verbatim>\<open>patientID\<close>, \<^verbatim>\<open>officerID\<close> and \<^verbatim>\<open>diagnosisNotes\<close>, returns NotFound and
  inserts nothing when \<^verbatim>\<open>patientID\<close> is not a key of the patients table, and otherwise
  returns Ok with \<^verbatim>\<open>labTestIDs\<close> absent and \<^verbatim>\<open>prescriptionIDs\<close> empty. The code
  does the second for every such payload and never the first: on the empty tables, where
  \<^verbatim>\<open>p1\<close> is no key, the call with \<^verbatim>\<open>patientID: "p1"\<close> returns Ok and stores the
  record. The guard \<^verbatim>\<open>!existingPatientOpt\<close> tests an object and is never true.
\<close>

theorem addHealthRecord_unknown_patient_stored:
  "patientsStorage emptyStores ''p1'' = None
   \<and> fst (addHealthRecord ''h1'' 6 hrPayload emptyStores)
       = Inr \<lparr>HealthRecord.id = ''h1'', HealthRecord.patientID = ''p1'',
              HealthRecord.uniqueNumber = ''n1'', HealthRecord.officerID = ''d1'',
              HealthRecord.diagnosisNotes = ''flu'', HealthRecord.labTestIDs = None,
              HealthRecord.prescriptionIDs = [], HealthRecord.createdAt = 6\<rparr>
   \<and> healthRecordsStorage (snd (addHealthRecord ''h1'' 6 hrPayload emptyStores)) ''h1''
       = Some \<lparr>HealthRecord.id = ''h1'', HealthRecord.patientID = ''p1'',
              HealthRecord.uniqueNumber = ''n1'', HealthRecord.officerID = ''d1'',
              HealthRecord.diagnosisNotes = ''flu'', HealthRecord.labTestIDs = None,
              HealthRecord.prescriptionIDs = [], HealthRecord.createdAt = 6\<rparr>"
  by (simp add: addHealthRecord_def hrPayload_def emptyStores_def truthy_defs Let_def store_defs)

theorem addHealthRecord_unknown_patient_stored_witness:
  "\<not> isNotFound (fst (addHealthRecord ''h1'' 6 hrPayload emptyStores))
   \<and> healthRecordsStorage (snd (addHealthRecord ''h1'' 6 hrPayload emptyStores))
       \<noteq> healthRecordsStorage emptyStores"
proof -
  have "healthRecordsStorage emptyStores ''h1'' = None"
    by (simp add: emptyStores_def)
  with addHealthRecord_unknown_patient_stored show ?thesis
    by (metis isNotFound.simps(3) option.distinct(1))
qed

text \<open>
  C7, as stated. The specification's example says that \<^verbatim>\<open>addPatient\<close> on
  \<^verbatim>\<open>{name: "Alice", age: 30, gender: "female", bloodType: "O", medicalHistory: ""}\<close>
  returns Ok. The presence guard rejects the empty \<^verbatim>\<open>medicalHistory\<close>: the call
  returns InvalidPayload and stores nothing.
\<close>

theorem addPatient_alice_empty_history_rejected:
  "addPatient ''u1'' 5 (alicePayload [] 0 None []) emptyStores
     = (Inl (InvalidPayload ''Invalid patient payload''), emptyStores)"
  by (simp add: addPatient_def alicePayload_def patientFieldMissing_def truthy_defs)

text \<open>
  C7, amended. \<^verbatim>\<open>addPatient\<close> on the example payload with a non-empty
  \<^verbatim>\<open>medicalHistory\<close> of at most 1000 characters returns Ok with a Patient whose
  \<^verbatim>\<open>updatedAt\<close> is absent; with the empty \<^verbatim>\<open>medicalHistory\<close> of the example it
  returns InvalidPayload; with \<^verbatim>\<open>name\<close> replaced by the empty string it returns
  InvalidPayload, whichever \<^verbatim>\<open>medicalHistory\<close> it has.
\<close>

theorem addPatient_alice_example:
  assumes "mh \<noteq> []" and "length mh \<le> 1000"
  shows "fst (addPatient uuid now (alicePayload i c u mh) s)
           = Inr \<lparr>Patient.id = uuid, Patient.name = ''Alice'', Patient.age = 30,
                  Patient.gender = ''female'', Patient.bloodType = ''O'',
                  Patient.medicalHistory = mh, Patient.createdAt = now,
                  Patient.updatedAt = None\<rparr>
       \<and> addPatient uuid now (alicePayload i c u []) s
           = (Inl (InvalidPayload ''Invalid patient payload''), s)
       \<and> addPatient uuid now ((alicePayload i c u mh)\<lparr>Patient.name := []\<rparr>) s
           = (Inl (InvalidPayload ''Invalid patient payload''), s)
       \<and> addPatient uuid now ((alicePayload i c u [])\<lparr>Patient.name := []\<rparr>) s
           = (Inl (InvalidPayload ''Invalid patient payload''), s)"
  using assms
  by (simp add: addPatient_def alicePayload_def patientFieldMissing_def truthy_defs Let_def)

theorem addPatient_alice_example_witness:
  "''none'' \<noteq> [] \<and> length ''none'' \<le> 1000
   \<and> fst (addPatient ''u1'' 5 (alicePayload [] 0 None ''none'') emptyStores)
           = Inr \<lparr>Patient.id = ''u1'', Patient.name = ''Alice'', Patient.age = 30,
                  Patient.gender = ''female'', Patient.bloodType = ''O'',
                  Patient.medicalHistory = ''none'', Patient.createdAt = 5,
                  Patient.updatedAt = None\<rparr>"
proof -
  have a: "''none'' \<noteq> []" and b: "length ''none'' \<le> 1000" by simp_all
  show ?thesis
    using a b addPatient_alice_example[OF a b, of "''u1''" 5 "[]" 0 None emptyStores] by simp
qed

text \<open>
  C8. In every reachable state of the tables: for every id that is a key of the patients
  table, \<^verbatim>\<open>deletePatient(id)\<close> returns Ok with the record that was stored there and
  removes it, and \<^verbatim>\<open>getPatient(id)\<close> afterwards returns a NotFound error; for every
  id that is not a key, \<^verbatim>\<open>deletePatient(id)\<close> returns a NotFound error and the tables
  are unchanged. The keys of a reachable patients table are non-empty, so the guard on
  the empty id does not stand in the way; for a non-empty id the first half holds for
  all tables, and the second half holds for all tables and every id.
\<close>

theorem deletePatient_then_getPatient:
  "(reachable s \<or> pid \<noteq> [] \<longrightarrow> (\<forall>p. patientsStorage s pid = Some p \<longrightarrow>
       deletePatient pid s = (Inr p, s\<lparr>patientsStorage := (patientsStorage s)(pid := None)\<rparr>)
       \<and> isNotFound (getPatient pid (snd (deletePatient pid s)))))
   \<and> (patientsStorage s pid = None \<longrightarrow>
       isNotFound (fst (deletePatient pid s)) \<and> snd (deletePatient pid s) = s)"
proof (intro conjI impI allI)
  fix p
  assume r: "reachable s \<or> pid \<noteq> []" and p: "patientsStorage s pid = Some p"
  from r p have ne: "pid \<noteq> []" by (auto dest: reachable_patient_keys)
  then show "deletePatient pid s
      = (Inr p, s\<lparr>patientsStorage := (patientsStorage s)(pid := None)\<rparr>)"
    using p by (simp add: deletePatient_def truthy_text_def remove_store_def)
  then show "isNotFound (getPatient pid (snd (deletePatient pid s)))"
    using ne by (simp add: getPatient_def truthy_text_def get_store_def)
next
  assume n: "patientsStorage s pid = None"
  then show "isNotFound (fst (deletePatient pid s))"
    by (simp add: deletePatient_def remove_store_absent)
  from n show "snd (deletePatient pid s) = s"
    by (simp add: deletePatient_def remove_store_absent)
qed

theorem deletePatient_then_getPatient_witness:
  "reachable onePatient
   \<and> patientsStorage onePatient ''p1'' = Some (alicePayload ''p1'' 5 None ''none'')
   \<and> fst (deletePatient ''p1'' onePatient) = Inr (alicePayload ''p1'' 5 None ''none'')
   \<and> isNotFound (getPatient ''p1'' (snd (deletePatient ''p1'' onePatient)))
   \<and> patientsStorage onePatient ''p2'' = None
   \<and> isNotFound (fst (deletePatient ''p2'' onePatient))
   \<and> snd (deletePatient ''p2'' onePatient) = onePatient"
proof -
  have p: "patientsStorage onePatient ''p1'' = Some (alicePayload ''p1'' 5 None ''none'')"
    by (simp add: onePatient_eq)
  have n: "patientsStorage onePatient ''p2'' = None"
    by (simp add: onePatient_eq emptyStores_def)
  from deletePatient_then_getPatient[of onePatient "''p1''"] reachable_onePatient p
  have d: "deletePatient ''p1'' onePatient = (Inr (alicePayload ''p1'' 5 None ''none''),
             onePatient\<lparr>patientsStorage := (patientsStorage onePatient)(''p1'' := None)\<rparr>)"
    and g: "isNotFound (getPatient ''p1'' (snd (deletePatient ''p1'' onePatient)))"
    by blast+
  from deletePatient_then_getPatient[of onePatient "''p2''"] n
  have a: "isNotFound (fst (deletePatient ''p2'' onePatient))"
    and b: "snd (deletePatient ''p2'' onePatient) = onePatient"
    by blast+
  from d have f: "fst (deletePatient ''p1'' onePatient) = Inr (alicePayload ''p1'' 5 None ''none'')"
    by simp
  from reachable_onePatient p f g n a b show ?thesis by blast
qed

text \<open>
  C9. For all tables and every input, \<^verbatim>\<open>addPrescription\<close> leaves the patients,
  doctors and lab-test tables unchanged and \<^verbatim>\<open>addLabTest\<close> leaves the patients,
  doctors and prescriptions tables unchanged; each either leaves its own table alone or
  inserts the new record there under the new id; and, in every reachable state (more
  generally, whenever every health record is stored under its own id), the health-record
  table is either unchanged or differs in one entry that was already present, now
  rewritten with the new id appended.
\<close>

theorem addPrescription_addLabTest_frame:
  "patientsStorage (snd (addPrescription uuid now pr s)) = patientsStorage s
   \<and> doctorsStorage (snd (addPrescription uuid now pr s)) = doctorsStorage s
   \<and> labTestsStorage (snd (addPrescription uuid now pr s)) = labTestsStorage s
   \<and> (prescriptionsStorage (snd (addPrescription uuid now pr s)) = prescriptionsStorage s
      \<or> prescriptionsStorage (snd (addPrescription uuid now pr s)) =
          (prescriptionsStorage s)
            (uuid \<mapsto> pr\<lparr>Prescription.id := uuid, Prescription.createdAt := now\<rparr>))
   \<and> (reachable s \<or> keyed_by_id (healthRecordsStorage s) \<longrightarrow>
        (healthRecordsStorage (snd (addPrescription uuid now pr s)) = healthRecordsStorage s
         \<or> (\<exists>k hr. healthRecordsStorage s k = Some hr
              \<and> healthRecordsStorage (snd (addPrescription uuid now pr s)) =
                  (healthRecordsStorage s)(k \<mapsto> linkPrescription hr uuid))))
   \<and> patientsStorage (snd (addLabTest uuid now l s)) = patientsStorage s
   \<and> doctorsStorage (snd (addLabTest uuid now l s)) = doctorsStorage s
   \<and> prescriptionsStorage (snd (addLabTest uuid now l s)) = prescriptionsStorage s
   \<and> (labTestsStorage (snd (addLabTest uuid now l s)) = labTestsStorage s
      \<or> labTestsStorage (snd (addLabTest uuid now l s)) =
          (labTestsStorage s)(uuid \<mapsto> l\<lparr>LabTest.id := uuid, LabTest.createdAt := now\<rparr>))
   \<and> (reachable s \<or> keyed_by_id (healthRecordsStorage s) \<longrightarrow>
        (healthRecordsStorage (snd (addLabTest uuid now l s)) = healthRecordsStorage s
         \<or> (\<exists>k hr. healthRecordsStorage s k = Some hr
              \<and> healthRecordsStorage (snd (addLabTest uuid now l s)) =
                  (healthRecordsStorage s)(k \<mapsto> linkLabTest hr uuid))))"
  by (intro conjI impI addPrescription_patients addPrescription_doctors addPrescription_labTests
      addPrescription_prescriptions addPrescription_rewrites_one addLabTest_patients
      addLabTest_doctors addLabTest_prescriptions addLabTest_labTests addLabTest_rewrites_one)

theorem addPrescription_addLabTest_frame_witness:
  "reachable oneHealthRecord
   \<and> (healthRecordsStorage (snd (addPrescription ''rx1'' 7 (rxPayload ''h1'') oneHealthRecord))
         = healthRecordsStorage oneHealthRecord
      \<or> (\<exists>k hr. healthRecordsStorage oneHealthRecord k = Some hr
           \<and> healthRecordsStorage (snd (addPrescription ''rx1'' 7 (rxPayload ''h1'') oneHealthRecord))
               = (healthRecordsStorage oneHealthRecord)(k \<mapsto> linkPrescription hr ''rx1'')))
   \<and> (healthRecordsStorage (snd (addLabTest ''lt1'' 8 (labPayload ''h1'') oneHealthRecord))
         = healthRecordsStorage oneHealthRecord
      \<or> (\<exists>k hr. healthRecordsStorage oneHealthRecord k = Some hr
           \<and> healthRecordsStorage (snd (addLabTest ''lt1'' 8 (labPayload ''h1'') oneHealthRecord))
               = (healthRecordsStorage oneHealthRecord)(k \<mapsto> linkLabTest hr ''lt1'')))
   \<and> map_option HealthRecord.prescriptionIDs
        (healthRecordsStorage (snd (addPrescription ''rx1'' 7 (rxPayload ''h1'') oneHealthRecord)) ''h1'')
        = Some [''rx1'']
   \<and> map_option HealthRecord.labTestIDs
        (healthRecordsStorage (snd (addLabTest ''lt1'' 8 (labPayload ''h1'') oneHealthRecord)) ''h1'')
        = Some (Some [''lt1''])"
proof -
  have a: "map_option HealthRecord.prescriptionIDs
        (healthRecordsStorage (snd (addPrescription ''rx1'' 7 (rxPayload ''h1'') oneHealthRecord)) ''h1'')
        = Some [''rx1'']"
    by (simp add: oneHealthRecord_eq addPrescription_hrs rxPayload_def truthy_defs Let_def
        hrPayload_def emptyStores_def linkPrescription_def)
  have b: "map_option HealthRecord.labTestIDs
        (healthRecordsStorage (snd (addLabTest ''lt1'' 8 (labPayload ''h1'') oneHealthRecord)) ''h1'')
        = Some (Some [''lt1''])"
    by (simp add: oneHealthRecord_eq addLabTest_hrs labPayload_def truthy_defs Let_def
        hrPayload_def emptyStores_def linkLabTest_def)
  from reachable_oneHealthRecord a b
    addPrescription_addLabTest_frame[of "''rx1''" 7 "rxPayload ''h1''" oneHealthRecord]
    addPrescription_addLabTest_frame[of "''lt1''" 8 _ oneHealthRecord "labPayload ''h1''"]
  show ?thesis by blast
qed

text \<open>
  C10. For the empty-string id, \<^verbatim>\<open>getPatient\<close>, \<^verbatim>\<open>updatePatient\<close> and
  \<^verbatim>\<open>deletePatient\<close> each return the same NotFound error whatever the tables hold and,
  for \<^verbatim>\<open>updatePatient\<close>, whatever the payload is, and the two update functions leave
  all tables as they were.
\<close>

theorem empty_id_NotFound:
  "getPatient [] s = Inl (NotFound ''Invalid patient ID'')
   \<and> updatePatient [] now payload s = (Inl (NotFound ''Invalid patient ID''), s)
   \<and> deletePatient [] s = (Inl (NotFound ''Invalid patient ID''), s)"
  by (simp add: getPatient_def updatePatient_def deletePatient_def truthy_text_def)

theorem empty_id_NotFound_witness:
  "isNotFound (getPatient [] onePatient)
   \<and> updatePatient [] 9 otherIdPayload onePatient = (Inl (NotFound ''Invalid patient ID''), onePatient)
   \<and> deletePatient [] onePatient = (Inl (NotFound ''Invalid patient ID''), onePatient)"
  using empty_id_NotFound[of onePatient 9 otherIdPayload] by simp

end
